theory Spec2Isabelle
  imports Main
begin

section \<open>Errors, queries and the streaming search executor\<close>

text \<open>
  A Go \<open>error\<close> is either raised by a collaborator (the query parser, the remote
  store, the connection) or built by \<open>cause.Explain(ctx, err, msg)\<close>, which attaches
  the explanation \<open>msg\<close> to \<open>err\<close>; \<open>err\<close> may be \<open>nil\<close>.
\<close>

datatype fault =
    Fault string
  | Explain "fault option" string

text \<open>
  \<open>script.MustParse("Id == $ or Name == $").Using("$")\<close>: the fixed template with the
  placeholder \<open>$\<close>; applying it to a value binds the placeholder. A query is kept as
  its source text with the values bound to it.
\<close>

datatype query = Query string "string list"

definition idOrName :: "string \<Rightarrow> query" where
  "idOrName v = Query ''Id == $ or Name == $'' [v]"

record Track =
  TrackId :: string
  Name :: string
  Description :: string
  Head :: string

text \<open>
  What a store sends back for one search call: the matching entities in the order
  the store yields them, and the RPC failure ending the stream, if any.
\<close>

record 'a response =
  entities :: "'a list"
  failure :: "fault option"

text \<open>
  Modelled from the spec: the Streaming Search Executor behind \<open>SearchArtifacts\<close>,
  \<open>SearchPackages\<close>, \<open>SearchTracks\<close> and the stash \<open>Search\<close>, which is not part of
  the examined sources. It calls the visitor once per entity, in order; a visitor
  error stops the iteration at once and is the result of the call; a stream with no
  entity succeeds. The visitor is a closure over mutable state \<open>'s\<close>.
\<close>

fun visit_all :: "('s \<Rightarrow> 'a \<Rightarrow> fault option \<times> 's) \<Rightarrow> 'a list \<Rightarrow> 's \<Rightarrow> fault option \<times> 's" where
  "visit_all v [] s = (None, s)"
| "visit_all v (x # xs) s =
     (case v s x of
        (Some e, s') \<Rightarrow> (Some e, s')
      | (None, s') \<Rightarrow> visit_all v xs s')"

definition search :: "'a response \<Rightarrow> ('s \<Rightarrow> 'a \<Rightarrow> fault option \<times> 's) \<Rightarrow> 's \<Rightarrow> fault option \<times> 's" where
  "search r v s =
     (case visit_all v (entities r) s of
        (Some e, s') \<Rightarrow> (Some e, s')
      | (None, s') \<Rightarrow> (failure r, s'))"

section \<open>The build store and the command-line flags\<close>

datatype build_Type = BuildBot | User | Local

record Information =
  Type :: build_Type
  Branch :: string
  Cl :: string
  Tag :: string
  Info_Description :: string
  Builder :: string
  Uploader :: string

text \<open>
  \<open>build.Store\<close> as the verbs use it, one field per method. The artifact and package
  messages are not declared in the examined sources and stay type parameters.
\<close>

record ('a, 'p) Store =
  SearchArtifacts :: "query \<Rightarrow> 'a response"
  SearchPackages :: "query \<Rightarrow> 'p response"
  SearchTracks :: "query \<Rightarrow> Track response"
  UpdateTrack :: "Track \<Rightarrow> fault + Track"
  Add :: "string \<Rightarrow> Information \<Rightarrow> fault + (string \<times> bool)"

text \<open>The calls a verb issues to a store, in the order it issues them.\<close>

datatype rpc =
    CallSearchArtifacts query
  | CallSearchPackages query
  | CallSearchTracks query
  | CallSearch query
  | CallUpdateTrack Track
  | CallAdd string Information

record buildFlags =
  tag :: string
  cl :: string
  branch :: string
  description :: string
  uploader :: string
  name :: string
  pkg :: string

section \<open>doTrackUpdate\<close>

text \<open>
  The visitor of \<open>doTrackUpdate\<close>; its state is the captured \<open>track\<close>.
\<close>

definition visit :: "Track \<Rightarrow> Track \<Rightarrow> fault option \<times> Track" where
  "visit track entry =
     (if TrackId track \<noteq> ''''
      then (Some (Explain None ''Multiple tracks matched''), track)
      else (None, track\<lparr>TrackId := TrackId entry\<rparr>))"

text \<open>
  The closing part of \<open>doTrackUpdate\<close>: the \<open>UpdateTrack\<close> call, after the calls
  \<open>done\<close> issued before it. The result is the returned error, the calls issued and
  the tracks logged.
\<close>

definition update :: "('a, 'p) Store \<Rightarrow> rpc list \<Rightarrow> Track \<Rightarrow> fault option \<times> rpc list \<times> Track list" where
  "update b done track =
     (case UpdateTrack b track of
        Inl err \<Rightarrow> (Some err, done @ [CallUpdateTrack track], [])
      | Inr track' \<Rightarrow> (None, done @ [CallUpdateTrack track], [track']))"

text \<open>
  \<open>doTrackUpdate\<close>, the task run by \<open>grpcutil.Client\<close> on the open connection:
  \<open>b\<close> is \<open>build.NewRemote(ctx, conn)\<close>, \<open>flags\<close> the flag values and \<open>args\<close> the
  positional arguments \<open>flags.Args()\<close>.
\<close>

definition doTrackUpdate :: "('a, 'p) Store \<Rightarrow> buildFlags \<Rightarrow> string list \<Rightarrow> fault option \<times> rpc list \<times> Track list" where
  "doTrackUpdate b flags args =
     (let track = \<lparr>TrackId = '''', Name = name flags, Description = description flags, Head = pkg flags\<rparr>
      in case args of
           [] \<Rightarrow> update b [] track
         | arg0 # _ \<Rightarrow>
             (case search (SearchTracks b (idOrName arg0)) visit track of
                (Some err, _) \<Rightarrow> (Some err, [CallSearchTracks (idOrName arg0)], [])
              | (None, track') \<Rightarrow>
                  if TrackId track' = ''''
                  then (Some (Explain None ''No tracks matched''), [CallSearchTracks (idOrName arg0)], [])
                  else update b [CallSearchTracks (idOrName arg0)] track'))"


text \<open>
  Modelled from the spec: what the bound template \<open>Id == $ or Name == $\<close> selects in
  the track domain; the query language itself is not part of the examined sources.
\<close>

definition selects :: "string \<Rightarrow> Track \<Rightarrow> bool" where
  "selects v t \<longleftrightarrow> TrackId t = v \<or> Name t = v"

definition no_entities :: "'a response" where
  "no_entities = \<lparr>entities = [], failure = None\<rparr>"

text \<open>
  A store for concrete runs: it holds the tracks \<open>ds\<close>, answers the bound template with
  the tracks it selects, in the order of \<open>ds\<close>, answers \<open>UpdateTrack\<close> with \<open>upd\<close> and
  \<open>Add\<close> with \<open>add\<close>, and has no artifacts or packages.
\<close>

definition remote :: "Track list \<Rightarrow> (Track \<Rightarrow> fault + Track) \<Rightarrow> (string \<Rightarrow> Information \<Rightarrow> fault + (string \<times> bool)) \<Rightarrow> (string, string) Store" where
  "remote ds upd add =
     \<lparr>SearchArtifacts = (\<lambda>q. no_entities),
      SearchPackages = (\<lambda>q. no_entities),
      SearchTracks = (\<lambda>q. case q of
          Query src [v] \<Rightarrow>
            if src = ''Id == $ or Name == $''
            then \<lparr>entities = filter (selects v) ds, failure = None\<rparr>
            else no_entities
        | _ \<Rightarrow> no_entities),
      UpdateTrack = upd,
      Add = add\<rparr>"

definition track_dup0 :: Track where
  "track_dup0 = \<lparr>TrackId = '''', Name = ''dup'', Description = ''first'', Head = ''p0''\<rparr>"

definition track_dup1 :: Track where
  "track_dup1 = \<lparr>TrackId = ''t1'', Name = ''dup'', Description = ''second'', Head = ''p1''\<rparr>"

definition track_dup2 :: Track where
  "track_dup2 = \<lparr>TrackId = ''t2'', Name = ''dup'', Description = ''third'', Head = ''p2''\<rparr>"

definition track_alpha :: Track where
  "track_alpha = \<lparr>TrackId = ''t1'', Name = ''alpha'', Description = ''rolling'', Head = ''p1''\<rparr>"

definition flags_set :: buildFlags where
  "flags_set = \<lparr>tag = '''', cl = '''', branch = '''', description = ''d'', uploader = '''',
                 name = ''n'', pkg = ''p9''\<rparr>"

definition add_new :: "string \<Rightarrow> Information \<Rightarrow> fault + (string \<times> bool)" where
  "add_new i info = Inr (i, False)"

section \<open>The search verbs\<close>

text \<open>\<open>strings.Join(elems, sep)\<close>.\<close>

fun Join :: "string list \<Rightarrow> string \<Rightarrow> string" where
  "Join [] sep = ''''"
| "Join [a] sep = a"
| "Join (a # b # rest) sep = a @ sep @ Join (b # rest) sep"

text \<open>
  The visitor of the four search verbs: \<open>proto.MarshalText(out, entry)\<close> and
  \<open>return nil\<close>. Its state is what has been written to \<open>out\<close>.
\<close>

definition marshal :: "'a list \<Rightarrow> 'a \<Rightarrow> fault option \<times> 'a list" where
  "marshal out entry = (None, out @ [entry])"

text \<open>
  The verbs take the parser \<open>script.Parse\<close> as the parameter \<open>Parse\<close>: it returns the
  parser's diagnostic or the query of the parsed expression. A verb returns its
  error, the calls it issued to the store and the entities written.
\<close>

definition doArtifactSearch :: "(string \<Rightarrow> fault + query) \<Rightarrow> ('a, 'p) Store \<Rightarrow> string list \<Rightarrow> fault option \<times> rpc list \<times> 'a list" where
  "doArtifactSearch Parse b args =
     (let expression = Join args '' ''
      in case Parse expression of
           Inl err \<Rightarrow> (Some (Explain (Some err) ''Malformed search query''), [], [])
         | Inr expr \<Rightarrow>
             (case search (SearchArtifacts b expr) marshal [] of
                (err, out) \<Rightarrow> (err, [CallSearchArtifacts expr], out)))"

definition doPackageSearch :: "(string \<Rightarrow> fault + query) \<Rightarrow> ('a, 'p) Store \<Rightarrow> string list \<Rightarrow> fault option \<times> rpc list \<times> 'p list" where
  "doPackageSearch Parse b args =
     (let expression = Join args '' ''
      in case Parse expression of
           Inl err \<Rightarrow> (Some (Explain (Some err) ''Malformed search query''), [], [])
         | Inr expr \<Rightarrow>
             (case search (SearchPackages b expr) marshal [] of
                (err, out) \<Rightarrow> (err, [CallSearchPackages expr], out)))"

definition doTrackSearch :: "(string \<Rightarrow> fault + query) \<Rightarrow> ('a, 'p) Store \<Rightarrow> string list \<Rightarrow> fault option \<times> rpc list \<times> Track list" where
  "doTrackSearch Parse b args =
     (let expression = Join args '' ''
      in case Parse expression of
           Inl err \<Rightarrow> (Some (Explain (Some err) ''Malformed search query''), [], [])
         | Inr expr \<Rightarrow>
             (case search (SearchTracks b expr) marshal [] of
                (err, out) \<Rightarrow> (err, [CallSearchTracks expr], out)))"

text \<open>The stash store, as \<open>doStashSearch\<close> uses it.\<close>

record 'e stash_Store =
  Search :: "query \<Rightarrow> 'e response"

text \<open>
  \<open>doStashSearch\<close>; \<open>Connect\<close> is the outcome of \<open>stashgrpc.Connect(ctx, conn)\<close>, which
  the verb checks before it parses the query.
\<close>

definition doStashSearch :: "(string \<Rightarrow> fault + query) \<Rightarrow> fault + 'e stash_Store \<Rightarrow> string list \<Rightarrow> fault option \<times> rpc list \<times> 'e list" where
  "doStashSearch Parse Connect args =
     (case Connect of
        Inl err \<Rightarrow> (Some err, [], [])
      | Inr store \<Rightarrow>
          (let expression = Join args '' ''
           in case Parse expression of
                Inl err \<Rightarrow> (Some (Explain (Some err) ''Malformed search query''), [], [])
              | Inr expr \<Rightarrow>
                  (case search (Search store expr) marshal [] of
                     (err, out) \<Rightarrow> (err, [CallSearch expr], out))))"

section \<open>The uploaders\<close>

text \<open>The lines a verb prints: an advisory notice with its cause, or a log line.\<close>

datatype logline =
    Notice fault string
  | Logf string
  | Logf_type string build_Type

text \<open>
  The collaborators of \<open>prepare\<close>: the git repository of the working directory
  (\<open>git.New(".")\<close> and its \<open>HeadCL\<close>, \<open>Status\<close> with \<open>Clean()\<close>, \<open>CurrentBranch\<close>), the
  user name of \<open>user.Current()\<close> and the host of \<open>device.Host(ctx)\<close>, kept as its name.
\<close>

record CL =
  SHA :: string
  Subject :: string

record Git =
  HeadCL :: "fault + CL"
  Status_Clean :: "fault + bool"
  CurrentBranch :: "fault + string"

record environment =
  git_New :: "fault + Git"
  user_Current :: "fault + string"
  device_Host :: string

record ('a, 'p) buildUploader =
  store :: "('a, 'p) Store"
  info :: Information

text \<open>
  The branch of \<open>prepare\<close> taken when the repository opened: it returns the build
  type, the flags as updated, and the lines printed.
\<close>

definition guess_from_git :: "Git \<Rightarrow> buildFlags \<Rightarrow> build_Type \<times> buildFlags \<times> logline list" where
  "guess_from_git g flags0 =
     (let (flags2, log2) =
            (case HeadCL g of
               Inl err \<Rightarrow> (flags0, [Notice err ''CL failed''])
             | Inr c \<Rightarrow>
                 (let (flags1, log1) =
                        (if cl flags0 = ''''
                         then (flags0\<lparr>cl := SHA c\<rparr>, [Logf (''Detected CL '' @ SHA c)])
                         else (flags0, []))
                  in if description flags1 = ''''
                     then (flags1\<lparr>description := Subject c\<rparr>,
                           log1 @ [Logf (''Detected description '' @ Subject c)])
                     else (flags1, log1)));
          (typ, log3) =
            (case Status_Clean g of
               Inl err \<Rightarrow> (User, [Notice err ''Status failed''])
             | Inr clean \<Rightarrow> (if \<not> clean then Local else User, []));
          (flags4, log4) =
            (if branch flags2 = ''''
             then (case CurrentBranch g of
                     Inl err \<Rightarrow> (flags2, [Notice err ''Branch failed''])
                   | Inr br \<Rightarrow> (flags2\<lparr>branch := br\<rparr>, [Logf (''Dectected branch '' @ br)]))
             else (flags2, []))
      in (typ, flags4, log2 @ log3 @ log4))"

text \<open>
  \<open>(*buildUploader).prepare\<close>. \<open>new_remote\<close> is \<open>build.NewRemote(ctx, conn)\<close>. The result is
  the returned error, the flags (which \<open>prepare\<close> writes), the uploader and the lines
  printed.
\<close>

definition prepare :: "environment \<Rightarrow> ('a, 'p) Store \<Rightarrow> buildFlags \<Rightarrow> fault option \<times> buildFlags \<times> ('a, 'p) buildUploader \<times> logline list" where
  "prepare env new_remote flags0 =
     (let (typ, flags1, log1) =
            (case git_New env of
               Inl err \<Rightarrow> (BuildBot, flags0, [Notice err ''Git failed''])
             | Inr g \<Rightarrow> guess_from_git g flags0);
          (flags2, log2) =
            (if uploader flags1 = ''''
             then (case user_Current env of
                     Inr username \<Rightarrow>
                       (flags1\<lparr>uploader := username\<rparr>, [Logf (''Dectected uploader '' @ username)])
                   | Inl err \<Rightarrow> (flags1, []))
             else (flags1, []))
      in (None,
          flags2,
          \<lparr>store = new_remote,
           info = \<lparr>Type = typ, Branch = branch flags2, Cl = cl flags2, Tag = tag flags2,
                    Info_Description = description flags2, Builder = device_Host env,
                    Uploader = uploader flags2\<rparr>\<rparr>,
          log1 @ log2 @ [Logf_type ''Dectected build type '' typ]))"

text \<open>\<open>(*buildUploader).process\<close>: the error, the calls issued and the lines printed.\<close>

definition process :: "('a, 'p) buildUploader \<Rightarrow> string \<Rightarrow> fault option \<times> rpc list \<times> logline list" where
  "process u id0 =
     (case Add (store u) id0 (info u) of
        Inl err \<Rightarrow> (Some (Explain (Some err) ''Failed processing build''), [CallAdd id0 (info u)], [])
      | Inr (id1, merged) \<Rightarrow>
          (None, [CallAdd id0 (info u)],
           [if merged then Logf (''Merged with build set '' @ id1)
            else Logf (''New build set '' @ id1)]))"

section \<open>guessSemantics\<close>

text \<open>\<open>strings.Contains(s, substr)\<close>, on byte strings.\<close>

fun HasPrefix :: "string \<Rightarrow> string \<Rightarrow> bool" where
  "HasPrefix s [] = True"
| "HasPrefix [] (p # ps) = False"
| "HasPrefix (c # cs) (p # ps) = (c = p \<and> HasPrefix cs ps)"

fun Contains :: "string \<Rightarrow> string \<Rightarrow> bool" where
  "Contains [] substr = (substr = [])"
| "Contains (c # cs) substr = (HasPrefix (c # cs) substr \<or> Contains cs substr)"

text \<open>
  \<open>vertex.Semantic_Type\<close> is declared outside the examined sources; its members
  named in \<open>semanticPatterns\<close> are the labels here. A stream carries its name and
  its label \<open>s.Semantic.Type\<close>; a label that is not set is \<open>None\<close>.
\<close>

datatype Semantic_Type =
    Semantic_Position
  | Semantic_Normal
  | Semantic_Tangent
  | Semantic_Bitangent
  | Semantic_Texcoord

record Stream =
  Stream_Name :: string
  Semantic :: "Semantic_Type option"

text \<open>The rules, ordered from highest priority to lowest.\<close>

definition semanticPatterns :: "(string \<times> Semantic_Type) list" where
  "semanticPatterns =
     [(''position'', Semantic_Position),
      (''normal'', Semantic_Normal),
      (''tangent'', Semantic_Tangent),
      (''bitangent'', Semantic_Bitangent),
      (''binormal'', Semantic_Bitangent),
      (''texcoord'', Semantic_Texcoord),
      (''pos'', Semantic_Position),
      (''uv'', Semantic_Texcoord),
      (''vertex'', Semantic_Position)]"

text \<open>
  The test of the inner loop, on the name of a stream:
  \<open>strings.Contains(strings.ToLower(s.Name), p.pattern)\<close>. \<open>strings.ToLower\<close> belongs
  to Go's library and lowers every Unicode letter; it is the parameter \<open>ToLower\<close> of
  the test and of the loops, so that what is proved of them holds for the library's
  function whatever it does to a name.
\<close>

definition holds :: "(string \<Rightarrow> string) \<Rightarrow> string \<Rightarrow> string \<Rightarrow> bool" where
  "holds ToLower pattern name0 = Contains (ToLower name0) pattern"

text \<open>
  The inner loop of \<open>guessSemantics\<close> for one rule: the first stream whose lower-cased
  name contains the pattern gets the label, and the loop breaks; the flag tells
  whether a stream was found.
\<close>

fun label_first :: "(string \<Rightarrow> string) \<Rightarrow> string \<Rightarrow> Semantic_Type \<Rightarrow> Stream list \<Rightarrow> Stream list \<times> bool" where
  "label_first ToLower pattern semantic [] = ([], False)"
| "label_first ToLower pattern semantic (s # ss) =
     (if holds ToLower pattern (Stream_Name s)
      then (s\<lparr>Semantic := Some semantic\<rparr> # ss, True)
      else (case label_first ToLower pattern semantic ss of (ss', found) \<Rightarrow> (s # ss', found)))"

text \<open>
  The outer loop over the rules, with the map \<open>taken\<close> (a missing key reads as
  false); a rule whose label is taken is skipped.
\<close>

fun guess_loop :: "(string \<Rightarrow> string) \<Rightarrow> (string \<times> Semantic_Type) list \<Rightarrow> (Semantic_Type \<Rightarrow> bool) \<Rightarrow> Stream list \<Rightarrow> Stream list" where
  "guess_loop ToLower [] taken streams = streams"
| "guess_loop ToLower ((pattern, semantic) # ps) taken streams =
     (if taken semantic then guess_loop ToLower ps taken streams
      else (case label_first ToLower pattern semantic streams of
              (streams', True) \<Rightarrow> guess_loop ToLower ps (taken(semantic := True)) streams'
            | (streams', False) \<Rightarrow> guess_loop ToLower ps taken streams'))"

text \<open>
  \<open>guessSemantics\<close> writes the labels of the streams of \<open>vb.Streams\<close> in place; here
  it takes the streams and returns them as they are after the call.
\<close>

definition guessSemantics :: "(string \<Rightarrow> string) \<Rightarrow> Stream list \<Rightarrow> Stream list" where
  "guessSemantics ToLower streams = guess_loop ToLower semanticPatterns (\<lambda>semantic. False) streams"

subsection \<open>What the rules give, stated without the loops\<close>


text \<open>The position of the first element of a list that satisfies a test.\<close>

fun first_index :: "('a \<Rightarrow> bool) \<Rightarrow> 'a list \<Rightarrow> nat option" where
  "first_index P [] = None"
| "first_index P (x # xs) = (if P x then Some 0 else map_option Suc (first_index P xs))"

text \<open>
  A label is claimed by the rules \<open>earlier\<close> when one of them carries it and has a
  pattern that some name of the collection contains.
\<close>

definition claimed :: "(string \<Rightarrow> string) \<Rightarrow> (string \<times> Semantic_Type) list \<Rightarrow> Semantic_Type \<Rightarrow> string list \<Rightarrow> bool" where
  "claimed ToLower earlier semantic names \<longleftrightarrow>
     (\<exists>(pattern, semantic')\<in>set earlier. semantic' = semantic \<and> (\<exists>n\<in>set names. holds ToLower pattern n))"

text \<open>
  The labels that the rules \<open>later\<close>, coming after the rules \<open>earlier\<close>, give to the
  stream at position \<open>i\<close>, in the order of the rules: a rule gives its label to the
  stream when the label is not claimed by the rules before it and the stream is the
  first of the collection whose lower-cased name contains the pattern.
\<close>

fun given :: "(string \<Rightarrow> string) \<Rightarrow> (string \<times> Semantic_Type) list \<Rightarrow> (string \<times> Semantic_Type) list \<Rightarrow> string list \<Rightarrow> nat \<Rightarrow> Semantic_Type list" where
  "given ToLower earlier [] names i = []"
| "given ToLower earlier ((pattern, semantic) # later) names i =
     (if \<not> claimed ToLower earlier semantic names \<and> first_index (holds ToLower pattern) names = Some i
      then [semantic] else [])
     @ given ToLower (earlier @ [(pattern, semantic)]) later names i"


section \<open>Collaborators for concrete runs\<close>

definition parse_reject :: "string \<Rightarrow> fault + query" where
  "parse_reject text = Inl (Fault (''cannot parse: '' @ text))"

definition stash_down :: "fault + string stash_Store" where
  "stash_down = Inl (Fault ''stash unavailable'')"

definition add_down :: "string \<Rightarrow> Information \<Rightarrow> fault + (string \<times> bool)" where
  "add_down i build_info = Inl (Fault ''store unavailable'')"

definition update_down :: "Track \<Rightarrow> fault + Track" where
  "update_down t = Inl (Fault ''store unavailable'')"

definition info_bot :: Information where
  "info_bot = \<lparr>Type = BuildBot, Branch = '''', Cl = '''', Tag = '''', Info_Description = '''',
               Builder = ''host'', Uploader = ''robot''\<rparr>"

definition env_bare :: environment where
  "env_bare = \<lparr>git_New = Inl (Fault ''not a git repository''), user_Current = Inr ''robot'',
               device_Host = ''host''\<rparr>"

definition search_broken :: "(string, string) Store" where
  "search_broken =
     (remote [] Inr add_new)\<lparr>SearchTracks := (\<lambda>q. \<lparr>entities = [], failure = Some (Fault ''stream broken'')\<rparr>)\<rparr>"

text \<open>
  On a name made of ASCII characters \<open>strings.ToLower\<close> maps the letters A to Z to
  lower case and keeps every other character. \<open>ToLower_ascii\<close> is that function; the
  concrete runs use it on such names only.
\<close>

definition lower_ascii :: "char \<Rightarrow> char" where
  "lower_ascii c =
     (if 65 \<le> (of_char c :: nat) \<and> (of_char c :: nat) \<le> 90
      then char_of ((of_char c :: nat) + 32) else c)"

definition ToLower_ascii :: "string \<Rightarrow> string" where
  "ToLower_ascii s = map lower_ascii s"


section \<open>Properties of doTrackUpdate\<close>

subsection \<open>The visitor\<close>

lemma visit_recorded:
  "TrackId t \<noteq> '''' \<Longrightarrow> visit t x = (Some (Explain None ''Multiple tracks matched''), t)"
  by (simp add: visit_def)

lemma visit_unrecorded:
  "TrackId t = '''' \<Longrightarrow> visit t x = (None, t\<lparr>TrackId := TrackId x\<rparr>)"
  by (simp add: visit_def)

lemma visit_empty:
  "TrackId t = '''' \<Longrightarrow> TrackId x = '''' \<Longrightarrow> visit t x = (None, t)"
  by (cases t) (simp add: visit_def)

lemma visit_all_recorded:
  "TrackId t \<noteq> '''' \<Longrightarrow>
     visit_all visit (x # xs) t = (Some (Explain None ''Multiple tracks matched''), t)"
  by (simp add: visit_recorded)

lemma visit_all_unrecorded:
  "TrackId t = '''' \<Longrightarrow> \<forall>x\<in>set xs. TrackId x = '''' \<Longrightarrow> visit_all visit xs t = (None, t)"
  by (induction xs) (simp_all add: visit_empty)

lemma visit_all_second:
  "TrackId t = '''' \<Longrightarrow> TrackId x \<noteq> '''' \<Longrightarrow>
     visit_all visit (x # y # ys) t =
       (Some (Explain None ''Multiple tracks matched''), t\<lparr>TrackId := TrackId x\<rparr>)"
  by (simp add: visit_unrecorded visit_recorded)

text \<open>The visitor only ever writes the Id of the captured track.\<close>

lemma visit_all_keeps:
  "visit_all visit xs t = (r, t') \<Longrightarrow>
     Name t' = Name t \<and> Description t' = Description t \<and> Head t' = Head t"
proof (induction xs arbitrary: t)
  case Nil
  then show ?case by simp
next
  case (Cons x xs)
  show ?case
  proof (cases "TrackId t = ''''")
    case True
    with Cons.prems have "visit_all visit xs (t\<lparr>TrackId := TrackId x\<rparr>) = (r, t')"
      by (simp add: visit_unrecorded)
    from Cons.IH [OF this] show ?thesis by simp
  next
    case False
    with Cons.prems show ?thesis by (simp add: visit_recorded)
  qed
qed

text \<open>
  A stream that is visited to its end and leaves an Id recorded consists of entities
  with an empty Id followed by one last entity, whose Id is the recorded one.
\<close>

lemma visit_all_shape:
  "TrackId t = '''' \<Longrightarrow> visit_all visit xs t = (None, t') \<Longrightarrow> TrackId t' \<noteq> '''' \<Longrightarrow>
     \<exists>pre e. xs = pre @ [e] \<and> (\<forall>x\<in>set pre. TrackId x = '''') \<and> TrackId e = TrackId t'"
proof (induction xs)
  case Nil
  then show ?case by simp
next
  case (Cons x xs)
  from Cons.prems(1)
  have step: "visit_all visit (x # xs) t = visit_all visit xs (t\<lparr>TrackId := TrackId x\<rparr>)"
    by (simp add: visit_unrecorded)
  show ?case
  proof (cases "TrackId x = ''''")
    case True
    with Cons.prems have "visit_all visit xs t = (None, t')"
      by (simp add: visit_empty)
    from Cons.IH [OF Cons.prems(1) this Cons.prems(3)]
    obtain pre e where "xs = pre @ [e]" "\<forall>x\<in>set pre. TrackId x = ''''" "TrackId e = TrackId t'"
      by blast
    with True
    have "x # xs = (x # pre) @ [e] \<and> (\<forall>y\<in>set (x # pre). TrackId y = '''') \<and> TrackId e = TrackId t'"
      by simp
    then show ?thesis by blast
  next
    case False
    show ?thesis
    proof (cases xs)
      case Nil
      with step Cons.prems have "TrackId t' = TrackId x" by auto
      with Nil show ?thesis by simp
    next
      case (Cons y ys)
      with step False \<open>visit_all visit (x # xs) t = (None, t')\<close> show ?thesis
        by (simp add: visit_recorded)
    qed
  qed
qed

lemma search_completes:
  "search r v s = (None, s') \<Longrightarrow> visit_all v (entities r) s = (None, s') \<and> failure r = None"
  by (auto simp: search_def split: prod.splits option.splits)

subsection \<open>The verb\<close>

text \<open>
  C4. With an empty positional argument list \<open>doTrackUpdate\<close> issues no search: its only
  call is \<open>UpdateTrack\<close>, on a track with an empty Id and the Name, Description and Head
  of the flags.
\<close>

theorem doTrackUpdate_no_token:
  "doTrackUpdate b flags [] =
     update b [] \<lparr>TrackId = '''', Name = name flags, Description = description flags, Head = pkg flags\<rparr>
   \<and> fst (snd (doTrackUpdate b flags [])) =
     [CallUpdateTrack \<lparr>TrackId = '''', Name = name flags, Description = description flags, Head = pkg flags\<rparr>]"
  by (simp add: doTrackUpdate_def update_def split: sum.split)


text \<open>
  C3. A token is given, the search completes without error, and no match is recorded
  (the Id of the captured track is still empty): \<open>doTrackUpdate\<close> returns the
  not-found error, and the search is the only call it issued; \<open>UpdateTrack\<close> is not
  invoked.
\<close>

theorem doTrackUpdate_not_found:
  assumes "search (SearchTracks b (idOrName tok)) visit
             \<lparr>TrackId = '''', Name = name flags, Description = description flags, Head = pkg flags\<rparr>
           = (None, tr)"
    and "TrackId tr = ''''"
  shows "doTrackUpdate b flags (tok # rest) =
           (Some (Explain None ''No tracks matched''), [CallSearchTracks (idOrName tok)], [])"
  using assms by (simp add: doTrackUpdate_def)

theorem doTrackUpdate_not_found_witness:
  "doTrackUpdate (remote [track_alpha] Inr add_new) flags_set [''beta''] =
     (Some (Explain None ''No tracks matched''), [CallSearchTracks (idOrName ''beta'')], [])"
proof -
  let ?b = "remote [track_alpha] Inr add_new"
  let ?t0 = "\<lparr>TrackId = '''', Name = name flags_set, Description = description flags_set,
              Head = pkg flags_set\<rparr>"
  have run: "search (SearchTracks ?b (idOrName ''beta'')) visit ?t0 = (None, ?t0)"
    by (simp add: search_def remote_def idOrName_def selects_def track_alpha_def)
  have unset: "TrackId ?t0 = ''''"
    by simp
  from doTrackUpdate_not_found [OF run unset] show ?thesis .
qed

text \<open>
  C2. A token is given and the search completes without error with a match recorded.
  Then the stream ended with the one entity \<open>e\<close> whose Id was recorded (any entity
  before it carried an empty Id and was not recorded), and \<open>doTrackUpdate\<close> goes on to
  \<open>UpdateTrack\<close> with a track that has the Id of \<open>e\<close> and the Name, Description and Head
  of the flags: nothing else of \<open>e\<close> is copied. The search and this \<open>UpdateTrack\<close> call
  are the calls issued.
\<close>

theorem doTrackUpdate_resolved:
  assumes "search (SearchTracks b (idOrName tok)) visit
             \<lparr>TrackId = '''', Name = name flags, Description = description flags, Head = pkg flags\<rparr>
           = (None, tr)"
    and "TrackId tr \<noteq> ''''"
  shows "\<exists>pre e.
           entities (SearchTracks b (idOrName tok)) = pre @ [e]
         \<and> (\<forall>x\<in>set pre. TrackId x = '''')
         \<and> TrackId e \<noteq> ''''
         \<and> doTrackUpdate b flags (tok # rest) =
             update b [CallSearchTracks (idOrName tok)]
               \<lparr>TrackId = TrackId e, Name = name flags, Description = description flags, Head = pkg flags\<rparr>
         \<and> fst (snd (doTrackUpdate b flags (tok # rest))) =
             [CallSearchTracks (idOrName tok),
              CallUpdateTrack
                \<lparr>TrackId = TrackId e, Name = name flags, Description = description flags, Head = pkg flags\<rparr>]"
proof -
  let ?t0 = "\<lparr>TrackId = '''', Name = name flags, Description = description flags, Head = pkg flags\<rparr>"
  let ?r = "SearchTracks b (idOrName tok)"
  from search_completes [OF assms(1)]
  have run: "visit_all visit (entities ?r) ?t0 = (None, tr)"
    by simp
  have "TrackId ?t0 = ''''"
    by simp
  from visit_all_shape [OF this run assms(2)]
  obtain pre e where shape: "entities ?r = pre @ [e]" "\<forall>x\<in>set pre. TrackId x = ''''"
    and rec: "TrackId e = TrackId tr"
    by blast
  from visit_all_keeps [OF run]
  have "Name tr = name flags" "Description tr = description flags" "Head tr = pkg flags"
    by simp_all
  with rec
  have tr: "tr = \<lparr>TrackId = TrackId e, Name = name flags, Description = description flags, Head = pkg flags\<rparr>"
    by (cases tr) simp
  from assms have verb: "doTrackUpdate b flags (tok # rest) = update b [CallSearchTracks (idOrName tok)] tr"
    by (simp add: doTrackUpdate_def)
  have calls: "fst (snd (update b [CallSearchTracks (idOrName tok)] tr)) =
                 [CallSearchTracks (idOrName tok), CallUpdateTrack tr]"
    by (simp add: update_def split: sum.split)
  from rec assms(2) have "TrackId e \<noteq> ''''"
    by simp
  with shape verb calls tr show ?thesis
    by auto
qed

theorem doTrackUpdate_resolved_witness:
  "\<exists>pre e.
     entities (SearchTracks (remote [track_alpha] Inr add_new) (idOrName ''alpha'')) = pre @ [e]
   \<and> (\<forall>x\<in>set pre. TrackId x = '''')
   \<and> TrackId e \<noteq> ''''
   \<and> doTrackUpdate (remote [track_alpha] Inr add_new) flags_set [''alpha''] =
       update (remote [track_alpha] Inr add_new) [CallSearchTracks (idOrName ''alpha'')]
         \<lparr>TrackId = TrackId e, Name = name flags_set, Description = description flags_set,
            Head = pkg flags_set\<rparr>
   \<and> fst (snd (doTrackUpdate (remote [track_alpha] Inr add_new) flags_set [''alpha''])) =
       [CallSearchTracks (idOrName ''alpha''),
        CallUpdateTrack
          \<lparr>TrackId = TrackId e, Name = name flags_set, Description = description flags_set,
             Head = pkg flags_set\<rparr>]"
proof -
  let ?b = "remote [track_alpha] Inr add_new"
  let ?t0 = "\<lparr>TrackId = '''', Name = name flags_set, Description = description flags_set,
              Head = pkg flags_set\<rparr>"
  have run: "search (SearchTracks ?b (idOrName ''alpha'')) visit ?t0 = (None, ?t0\<lparr>TrackId := ''t1''\<rparr>)"
    by (simp add: search_def remote_def idOrName_def selects_def track_alpha_def visit_def)
  have recorded: "TrackId (?t0\<lparr>TrackId := ''t1''\<rparr>) \<noteq> ''''"
    by simp
  from doTrackUpdate_resolved [OF run recorded] show ?thesis .
qed

text \<open>
  The runs of the specification's example: one track named alpha with Id t1. The
  token alpha and the token t1 both resolve to t1, and the track sent to
  \<open>UpdateTrack\<close> carries the flag values, not the fields of the stored track.
\<close>

lemma doTrackUpdate_alpha_by_name:
  "doTrackUpdate (remote [track_alpha] Inr add_new) flags_set [''alpha''] =
     (None,
      [CallSearchTracks (idOrName ''alpha''),
       CallUpdateTrack \<lparr>TrackId = ''t1'', Name = ''n'', Description = ''d'', Head = ''p9''\<rparr>],
      [\<lparr>TrackId = ''t1'', Name = ''n'', Description = ''d'', Head = ''p9''\<rparr>])"
  by (simp add: doTrackUpdate_def update_def search_def remote_def idOrName_def selects_def
      track_alpha_def flags_set_def visit_def)

lemma doTrackUpdate_alpha_by_id:
  "doTrackUpdate (remote [track_alpha] Inr add_new) flags_set [''t1''] =
     (None,
      [CallSearchTracks (idOrName ''t1''),
       CallUpdateTrack \<lparr>TrackId = ''t1'', Name = ''n'', Description = ''d'', Head = ''p9''\<rparr>],
      [\<lparr>TrackId = ''t1'', Name = ''n'', Description = ''d'', Head = ''p9''\<rparr>])"
  by (simp add: doTrackUpdate_def update_def search_def remote_def idOrName_def selects_def
      track_alpha_def flags_set_def visit_def)



text \<open>
  C1, as stated, fails: the data set holds two tracks named dup, so the bound query
  selects two tracks, but the first one yielded has an empty Id. Visiting it leaves
  the captured Id empty, the second one is recorded as if it were the first match,
  the search ends without error and \<open>UpdateTrack\<close> is invoked on t2.
\<close>

theorem doTrackUpdate_ambiguity_counterexample:
  "filter (selects ''dup'') [track_dup0, track_dup2] = [track_dup0, track_dup2]
   \<and> entities (SearchTracks (remote [track_dup0, track_dup2] Inr add_new) (idOrName ''dup'')) =
       [track_dup0, track_dup2]
   \<and> doTrackUpdate (remote [track_dup0, track_dup2] Inr add_new) flags_set [''dup''] =
       (None,
        [CallSearchTracks (idOrName ''dup''),
         CallUpdateTrack \<lparr>TrackId = ''t2'', Name = ''n'', Description = ''d'', Head = ''p9''\<rparr>],
        [\<lparr>TrackId = ''t2'', Name = ''n'', Description = ''d'', Head = ''p9''\<rparr>])"
  by (simp add: doTrackUpdate_def update_def search_def remote_def idOrName_def selects_def
      track_dup0_def track_dup2_def flags_set_def visit_def)

text \<open>
  C1, amended. The store answers the bound query with the tracks of the data set
  \<open>ds\<close> that the query selects, there are two or more of them, and the first one
  yielded has a nonempty Id (so in particular whenever no track has an empty Id).
  Then the visit of the second match fails with the ambiguity error, the captured
  track keeps the Id of the first match, \<open>doTrackUpdate\<close> returns the ambiguity error,
  and the search is the only call issued: \<open>UpdateTrack\<close> is not invoked.
\<close>

theorem doTrackUpdate_ambiguous:
  assumes "entities (SearchTracks b (idOrName tok)) = filter (selects tok) ds"
    and "2 \<le> length (filter (selects tok) ds)"
    and "TrackId (hd (filter (selects tok) ds)) \<noteq> ''''"
  shows "visit_all visit (entities (SearchTracks b (idOrName tok)))
           \<lparr>TrackId = '''', Name = name flags, Description = description flags, Head = pkg flags\<rparr> =
           (Some (Explain None ''Multiple tracks matched''),
            \<lparr>TrackId = TrackId (hd (filter (selects tok) ds)), Name = name flags,
               Description = description flags, Head = pkg flags\<rparr>)
       \<and> doTrackUpdate b flags (tok # rest) =
           (Some (Explain None ''Multiple tracks matched''), [CallSearchTracks (idOrName tok)], [])"
proof -
  let ?t0 = "\<lparr>TrackId = '''', Name = name flags, Description = description flags, Head = pkg flags\<rparr>"
  from assms(2) obtain x y ys where ms: "filter (selects tok) ds = x # y # ys"
    by (cases "filter (selects tok) ds" rule: list.exhaust)
      (auto simp: Suc_le_eq length_Suc_conv neq_Nil_conv)
  with assms(3) have x: "TrackId x \<noteq> ''''"
    by simp
  have "TrackId ?t0 = ''''"
    by simp
  from visit_all_second [OF this x, of y ys]
  have run: "visit_all visit (entities (SearchTracks b (idOrName tok))) ?t0 =
               (Some (Explain None ''Multiple tracks matched''), ?t0\<lparr>TrackId := TrackId x\<rparr>)"
    by (simp add: assms(1) ms)
  then have "doTrackUpdate b flags (tok # rest) =
               (Some (Explain None ''Multiple tracks matched''), [CallSearchTracks (idOrName tok)], [])"
    by (simp add: doTrackUpdate_def search_def)
  with run ms show ?thesis
    by simp
qed

theorem doTrackUpdate_ambiguous_witness:
  "visit_all visit (entities (SearchTracks (remote [track_dup1, track_dup2] Inr add_new) (idOrName ''dup'')))
     \<lparr>TrackId = '''', Name = name flags_set, Description = description flags_set, Head = pkg flags_set\<rparr> =
     (Some (Explain None ''Multiple tracks matched''),
      \<lparr>TrackId = TrackId (hd (filter (selects ''dup'') [track_dup1, track_dup2])), Name = name flags_set,
         Description = description flags_set, Head = pkg flags_set\<rparr>)
   \<and> doTrackUpdate (remote [track_dup1, track_dup2] Inr add_new) flags_set [''dup''] =
       (Some (Explain None ''Multiple tracks matched''), [CallSearchTracks (idOrName ''dup'')], [])"
proof -
  let ?b = "remote [track_dup1, track_dup2] Inr add_new"
  have answer: "entities (SearchTracks ?b (idOrName ''dup'')) = filter (selects ''dup'') [track_dup1, track_dup2]"
    by (simp add: remote_def idOrName_def)
  have two: "2 \<le> length (filter (selects ''dup'') [track_dup1, track_dup2])"
    by (simp add: selects_def track_dup1_def track_dup2_def)
  have first: "TrackId (hd (filter (selects ''dup'') [track_dup1, track_dup2])) \<noteq> ''''"
    by (simp add: selects_def track_dup1_def track_dup2_def)
  from doTrackUpdate_ambiguous [OF answer two first] show ?thesis .
qed



text \<open>
  When every entity of the stream has a nonempty Id, the resolver counts exactly:
  no entity leaves the captured Id empty, one entity records its Id, two or more
  end in the ambiguity error with the first Id recorded.
\<close>

lemma visit_all_exact:
  assumes "TrackId t = ''''" and "\<forall>x\<in>set xs. TrackId x \<noteq> ''''"
  shows "visit_all visit xs t =
           (case xs of
              [] \<Rightarrow> (None, t)
            | [x] \<Rightarrow> (None, t\<lparr>TrackId := TrackId x\<rparr>)
            | x # y # ys \<Rightarrow> (Some (Explain None ''Multiple tracks matched''), t\<lparr>TrackId := TrackId x\<rparr>))"
proof (cases xs)
  case Nil
  then show ?thesis by simp
next
  case (Cons x xs')
  with assms show ?thesis
    by (cases xs') (simp_all add: visit_unrecorded visit_recorded)
qed

text \<open>
  C10, as stated, fails in one part: a visited track with an empty Id does trigger
  the ambiguity error when a match has been recorded before it. The store yields
  the track t1 and then a track with an empty Id; the visit of the latter returns the
  ambiguity error, which is the result of \<open>doTrackUpdate\<close>.
\<close>

theorem resolver_sentinel_counterexample:
  "entities (SearchTracks (remote [track_dup1, track_dup0] Inr add_new) (idOrName ''dup'')) =
     [track_dup1, track_dup0]
   \<and> TrackId track_dup0 = ''''
   \<and> visit \<lparr>TrackId = ''t1'', Name = ''n'', Description = ''d'', Head = ''p9''\<rparr> track_dup0 =
       (Some (Explain None ''Multiple tracks matched''),
        \<lparr>TrackId = ''t1'', Name = ''n'', Description = ''d'', Head = ''p9''\<rparr>)
   \<and> doTrackUpdate (remote [track_dup1, track_dup0] Inr add_new) flags_set [''dup''] =
       (Some (Explain None ''Multiple tracks matched''), [CallSearchTracks (idOrName ''dup'')], [])"
  by (simp add: doTrackUpdate_def search_def remote_def idOrName_def selects_def
      track_dup0_def track_dup1_def flags_set_def visit_def)

text \<open>
  C10, amended. The empty string on the Id of the captured track is the resolver's
  sign that no match is recorded yet. A visited track with an empty Id is never
  recorded: the captured track is the same after its visit. Its visit returns the
  ambiguity error exactly when a nonempty Id was recorded before it, and no error
  when no match is recorded. A stream that yields only tracks with an empty Id and
  ends without failure ends in the not-found error, with the search as the only
  call issued. When all tracks of the stream have a nonempty Id and the stream ends
  without failure, the outcome follows the number of tracks yielded: none gives the
  not-found error, two or more the ambiguity error, and exactly one the
  \<open>UpdateTrack\<close> call on its Id.
\<close>

theorem resolver_sentinel:
  "(TrackId entry = '''' \<longrightarrow>
      snd (visit track entry) = track
    \<and> (TrackId track \<noteq> '''' \<longrightarrow> fst (visit track entry) = Some (Explain None ''Multiple tracks matched''))
    \<and> (TrackId track = '''' \<longrightarrow> fst (visit track entry) = None))
   \<and> ((\<forall>x\<in>set (entities (SearchTracks b (idOrName tok))). TrackId x = '''')
       \<and> failure (SearchTracks b (idOrName tok)) = None \<longrightarrow>
       doTrackUpdate b flags (tok # rest) =
         (Some (Explain None ''No tracks matched''), [CallSearchTracks (idOrName tok)], []))
   \<and> ((\<forall>x\<in>set (entities (SearchTracks b (idOrName tok))). TrackId x \<noteq> '''')
       \<and> failure (SearchTracks b (idOrName tok)) = None \<longrightarrow>
       doTrackUpdate b flags (tok # rest) =
         (case entities (SearchTracks b (idOrName tok)) of
            [] \<Rightarrow> (Some (Explain None ''No tracks matched''), [CallSearchTracks (idOrName tok)], [])
          | [x] \<Rightarrow> update b [CallSearchTracks (idOrName tok)]
                     \<lparr>TrackId = TrackId x, Name = name flags, Description = description flags,
                        Head = pkg flags\<rparr>
          | x # y # ys \<Rightarrow>
              (Some (Explain None ''Multiple tracks matched''), [CallSearchTracks (idOrName tok)], [])))"
proof (intro conjI impI)
  assume "TrackId entry = ''''"
  then show "snd (visit track entry) = track"
    by (cases track) (simp add: visit_def)
next
  assume "TrackId track \<noteq> ''''"
  then show "fst (visit track entry) = Some (Explain None ''Multiple tracks matched'')"
    by (simp add: visit_def)
next
  assume "TrackId track = ''''"
  then show "fst (visit track entry) = None"
    by (simp add: visit_def)
next
  let ?t0 = "\<lparr>TrackId = '''', Name = name flags, Description = description flags, Head = pkg flags\<rparr>"
  assume h: "(\<forall>x\<in>set (entities (SearchTracks b (idOrName tok))). TrackId x = '''')
             \<and> failure (SearchTracks b (idOrName tok)) = None"
  have "TrackId ?t0 = ''''"
    by simp
  from visit_all_unrecorded [OF this] h
  have "visit_all visit (entities (SearchTracks b (idOrName tok))) ?t0 = (None, ?t0)"
    by blast
  with h show "doTrackUpdate b flags (tok # rest) =
                 (Some (Explain None ''No tracks matched''), [CallSearchTracks (idOrName tok)], [])"
    by (simp add: doTrackUpdate_def search_def)
next
  let ?t0 = "\<lparr>TrackId = '''', Name = name flags, Description = description flags, Head = pkg flags\<rparr>"
  let ?es = "entities (SearchTracks b (idOrName tok))"
  assume h: "(\<forall>x\<in>set ?es. TrackId x \<noteq> '''') \<and> failure (SearchTracks b (idOrName tok)) = None"
  have "TrackId ?t0 = ''''"
    by simp
  from visit_all_exact [OF this] h
  have run: "visit_all visit ?es ?t0 =
           (case ?es of
              [] \<Rightarrow> (None, ?t0)
            | [x] \<Rightarrow> (None, ?t0\<lparr>TrackId := TrackId x\<rparr>)
            | x # y # ys \<Rightarrow> (Some (Explain None ''Multiple tracks matched''), ?t0\<lparr>TrackId := TrackId x\<rparr>))"
    by blast
  show "doTrackUpdate b flags (tok # rest) =
         (case ?es of
            [] \<Rightarrow> (Some (Explain None ''No tracks matched''), [CallSearchTracks (idOrName tok)], [])
          | [x] \<Rightarrow> update b [CallSearchTracks (idOrName tok)]
                     \<lparr>TrackId = TrackId x, Name = name flags, Description = description flags,
                        Head = pkg flags\<rparr>
          | x # y # ys \<Rightarrow>
              (Some (Explain None ''Multiple tracks matched''), [CallSearchTracks (idOrName tok)], []))"
  proof (cases ?es)
    case Nil
    with run h show ?thesis
      by (simp add: doTrackUpdate_def search_def)
  next
    case (Cons x xs)
    note outer = Cons
    show ?thesis
    proof (cases xs)
      case Nil
      from h outer have "TrackId x \<noteq> ''''"
        by simp
      with run h outer Nil show ?thesis
        by (simp add: doTrackUpdate_def search_def)
    next
      case (Cons y ys)
      with run h outer show ?thesis
        by (simp add: doTrackUpdate_def search_def)
    qed
  qed
qed



theorem resolver_sentinel_witness:
  "snd (visit \<lparr>TrackId = '''', Name = ''n'', Description = ''d'', Head = ''p9''\<rparr> track_dup0) =
     \<lparr>TrackId = '''', Name = ''n'', Description = ''d'', Head = ''p9''\<rparr>
   \<and> fst (visit \<lparr>TrackId = '''', Name = ''n'', Description = ''d'', Head = ''p9''\<rparr> track_dup0) = None
   \<and> fst (visit \<lparr>TrackId = ''t1'', Name = ''n'', Description = ''d'', Head = ''p9''\<rparr> track_dup0) =
       Some (Explain None ''Multiple tracks matched'')
   \<and> doTrackUpdate (remote [track_dup0, track_dup0] Inr add_new) flags_set [''dup''] =
       (Some (Explain None ''No tracks matched''), [CallSearchTracks (idOrName ''dup'')], [])
   \<and> doTrackUpdate (remote [track_dup1, track_dup2] Inr add_new) flags_set [''dup''] =
       (Some (Explain None ''Multiple tracks matched''), [CallSearchTracks (idOrName ''dup'')], [])"
proof -
  let ?u = "\<lparr>TrackId = '''', Name = ''n'', Description = ''d'', Head = ''p9''\<rparr>"
  let ?r = "\<lparr>TrackId = ''t1'', Name = ''n'', Description = ''d'', Head = ''p9''\<rparr>"
  let ?b0 = "remote [track_dup0, track_dup0] Inr add_new"
  let ?b2 = "remote [track_dup1, track_dup2] Inr add_new"
  have e: "TrackId track_dup0 = ''''"
    by (simp add: track_dup0_def)
  have u: "TrackId ?u = ''''" and r: "TrackId ?r \<noteq> ''''"
    by simp_all
  have es0: "entities (SearchTracks ?b0 (idOrName ''dup'')) = [track_dup0, track_dup0]"
    and es2: "entities (SearchTracks ?b2 (idOrName ''dup'')) = [track_dup1, track_dup2]"
    by (simp_all add: remote_def idOrName_def selects_def track_dup0_def track_dup1_def track_dup2_def)
  have h0: "(\<forall>x\<in>set (entities (SearchTracks ?b0 (idOrName ''dup''))). TrackId x = '''')
            \<and> failure (SearchTracks ?b0 (idOrName ''dup'')) = None"
    unfolding es0 by (simp add: remote_def idOrName_def track_dup0_def)
  have h2: "(\<forall>x\<in>set (entities (SearchTracks ?b2 (idOrName ''dup''))). TrackId x \<noteq> '''')
            \<and> failure (SearchTracks ?b2 (idOrName ''dup'')) = None"
    unfolding es2 by (simp add: remote_def idOrName_def track_dup1_def track_dup2_def)
  note first = resolver_sentinel [of track_dup0 ?u ?b0 "''dup''" flags_set "[]"]
  note second = resolver_sentinel [of track_dup0 ?r ?b2 "''dup''" flags_set "[]"]
  from first e u h0
  have a: "snd (visit ?u track_dup0) = ?u" "fst (visit ?u track_dup0) = None"
    "doTrackUpdate ?b0 flags_set [''dup''] =
       (Some (Explain None ''No tracks matched''), [CallSearchTracks (idOrName ''dup'')], [])"
    by blast+
  from second e r have b: "fst (visit ?r track_dup0) = Some (Explain None ''Multiple tracks matched'')"
    by blast
  from second h2
  have "doTrackUpdate ?b2 flags_set [''dup''] =
          (case entities (SearchTracks ?b2 (idOrName ''dup'')) of
            [] \<Rightarrow> (Some (Explain None ''No tracks matched''), [CallSearchTracks (idOrName ''dup'')], [])
          | [x] \<Rightarrow> update ?b2 [CallSearchTracks (idOrName ''dup'')]
                     \<lparr>TrackId = TrackId x, Name = name flags_set, Description = description flags_set,
                        Head = pkg flags_set\<rparr>
          | x # y # ys \<Rightarrow>
              (Some (Explain None ''Multiple tracks matched''), [CallSearchTracks (idOrName ''dup'')], []))"
    by blast
  then have c: "doTrackUpdate ?b2 flags_set [''dup''] =
       (Some (Explain None ''Multiple tracks matched''), [CallSearchTracks (idOrName ''dup'')], [])"
    unfolding es2 by simp
  from a b c show ?thesis
    by simp
qed



section \<open>Properties of the search verbs\<close>

text \<open>
  C6, as stated, fails for the stash verb: \<open>doStashSearch\<close> connects to the stash
  before it parses the query and returns the error of \<open>stashgrpc.Connect\<close> as it is.
  With a malformed query text and a stash that cannot be reached, the error returned
  is the connection error, without the parser's diagnostic.
\<close>

theorem search_malformed_counterexample:
  "parse_reject (Join [''Id'', ''==''] '' '') = Inl (Fault ''cannot parse: Id =='')
   \<and> doStashSearch parse_reject stash_down [''Id'', ''==''] = (Some (Fault ''stash unavailable''), [], [])"
  by (simp add: parse_reject_def stash_down_def doStashSearch_def)

text \<open>
  C6, amended. For every malformed query text (the parser rejects the joined
  arguments with the diagnostic \<open>d\<close>), the artifact, package and track verbs return
  \<open>d\<close> wrapped in the explanation "Malformed search query", and so does the stash verb
  once \<open>stashgrpc.Connect\<close> has succeeded; when it has failed, the stash verb returns
  the connection error unchanged. In every case no search call is issued and nothing
  is written.
\<close>

theorem search_malformed:
  assumes "Parse (Join args '' '') = Inl d"
  shows "doArtifactSearch Parse b args = (Some (Explain (Some d) ''Malformed search query''), [], [])
       \<and> doPackageSearch Parse b args = (Some (Explain (Some d) ''Malformed search query''), [], [])
       \<and> doTrackSearch Parse b args = (Some (Explain (Some d) ''Malformed search query''), [], [])
       \<and> doStashSearch Parse (Inr st) args = (Some (Explain (Some d) ''Malformed search query''), [], [])
       \<and> doStashSearch Parse (Inl e) args = (Some e, [], [])"
  using assms
  by (simp add: doArtifactSearch_def doPackageSearch_def doTrackSearch_def doStashSearch_def)

theorem search_malformed_witness:
  "doArtifactSearch parse_reject (remote [] Inr add_new) [''Id'', ''==''] =
     (Some (Explain (Some (Fault ''cannot parse: Id =='')) ''Malformed search query''), [], [])
   \<and> doPackageSearch parse_reject (remote [] Inr add_new) [''Id'', ''==''] =
     (Some (Explain (Some (Fault ''cannot parse: Id =='')) ''Malformed search query''), [], [])
   \<and> doTrackSearch parse_reject (remote [] Inr add_new) [''Id'', ''==''] =
     (Some (Explain (Some (Fault ''cannot parse: Id =='')) ''Malformed search query''), [], [])
   \<and> doStashSearch parse_reject (Inr \<lparr>Search = (\<lambda>q. no_entities)\<rparr>) [''Id'', ''==''] =
     (Some (Explain (Some (Fault ''cannot parse: Id =='')) ''Malformed search query''), [], []::string list)
   \<and> doStashSearch parse_reject (Inl (Fault ''stash unavailable'')) [''Id'', ''==''] =
     (Some (Fault ''stash unavailable''), [], []::string list)"
proof -
  have bad: "parse_reject (Join [''Id'', ''==''] '' '') = Inl (Fault ''cannot parse: Id =='')"
    by (simp add: parse_reject_def)
  from search_malformed [where Parse = parse_reject and args = "[''Id'', ''=='']"
      and d = "Fault ''cannot parse: Id ==''" and b = "remote [] Inr add_new"
      and st = "\<lparr>Search = (\<lambda>q. no_entities)\<rparr>" and e = "Fault ''stash unavailable''", OF bad]
  show ?thesis .
qed

section \<open>Properties of the uploaders\<close>

text \<open>
  C5, as stated, fails for \<open>Add\<close>: \<open>process\<close> does not return the store's error
  unmodified, it attaches the explanation "Failed processing build" to it.
\<close>

theorem store_error_counterexample:
  "Add (remote [] Inr add_down) ''f'' info_bot = Inl (Fault ''store unavailable'')
   \<and> process \<lparr>store = remote [] Inr add_down, info = info_bot\<rparr> ''f'' =
       (Some (Explain (Some (Fault ''store unavailable'')) ''Failed processing build''),
        [CallAdd ''f'' info_bot], [])
   \<and> fst (process \<lparr>store = remote [] Inr add_down, info = info_bot\<rparr> ''f'') \<noteq>
       Some (Fault ''store unavailable'')"
  by (simp add: process_def remote_def add_down_def)

text \<open>
  C5, amended. Whenever \<open>doTrackUpdate\<close> calls \<open>UpdateTrack\<close> and the store answers
  with an error, the verb returns that error unmodified; an error of the track
  search (a failure of the stream, or the ambiguity error of the visitor) is returned
  unmodified as well. An error of \<open>Add\<close> is returned by \<open>process\<close> as the cause of a
  "Failed processing build" explanation.
\<close>

theorem store_error:
  "(CallUpdateTrack t \<in> set (fst (snd (doTrackUpdate b flags args))) \<and> UpdateTrack b t = Inl e \<longrightarrow>
      fst (doTrackUpdate b flags args) = Some e)
   \<and> (fst (search (SearchTracks b (idOrName tok)) visit
             \<lparr>TrackId = '''', Name = name flags, Description = description flags, Head = pkg flags\<rparr>)
        = Some e \<longrightarrow>
      fst (doTrackUpdate b flags (tok # rest)) = Some e)
   \<and> (Add (store u) id0 (info u) = Inl e \<longrightarrow>
      fst (process u id0) = Some (Explain (Some e) ''Failed processing build''))"
  by (auto simp: doTrackUpdate_def update_def process_def Let_def
      split: list.splits prod.splits option.splits if_splits sum.splits)

theorem store_error_witness:
  "fst (doTrackUpdate (remote [] update_down add_new) flags_set []) = Some (Fault ''store unavailable'')
   \<and> fst (doTrackUpdate search_broken flags_set [''alpha'']) = Some (Fault ''stream broken'')
   \<and> fst (process \<lparr>store = remote [] Inr add_down, info = info_bot\<rparr> ''f'') =
       Some (Explain (Some (Fault ''store unavailable'')) ''Failed processing build'')"
proof -
  let ?t0 = "\<lparr>TrackId = '''', Name = name flags_set, Description = description flags_set,
              Head = pkg flags_set\<rparr>"
  let ?b = "remote [] update_down add_new"
  let ?u = "\<lparr>store = remote [] Inr add_down, info = info_bot\<rparr>"
  have called: "CallUpdateTrack ?t0 \<in> set (fst (snd (doTrackUpdate ?b flags_set [])))
                \<and> UpdateTrack ?b ?t0 = Inl (Fault ''store unavailable'')"
    by (simp add: doTrackUpdate_def update_def remote_def update_down_def)
  have broken: "fst (search (SearchTracks search_broken (idOrName ''alpha'')) visit ?t0) =
                  Some (Fault ''stream broken'')"
    by (simp add: search_broken_def search_def)
  have down: "Add (store ?u) ''f'' (info ?u) = Inl (Fault ''store unavailable'')"
    by (simp add: remote_def add_down_def)
  from store_error [of ?t0 ?b flags_set "[]" "Fault ''store unavailable''"] called
  have a: "fst (doTrackUpdate ?b flags_set []) = Some (Fault ''store unavailable'')"
    by blast
  from store_error [where b = search_broken and tok = "''alpha''" and flags = flags_set
      and e = "Fault ''stream broken''" and rest = "[]"] broken
  have b: "fst (doTrackUpdate search_broken flags_set [''alpha'']) = Some (Fault ''stream broken'')"
    by blast
  from store_error [where u = ?u and ?id0.0 = "''f''" and e = "Fault ''store unavailable''"] down
  have c: "fst (process ?u ''f'') = Some (Explain (Some (Fault ''store unavailable'')) ''Failed processing build'')"
    by blast
  from a b c show ?thesis
    by simp
qed

text \<open>
  C7. \<open>prepare\<close> returns no error, whatever its collaborators answer. When the
  repository does not open and the branch and uploader flags are empty, the
  Information has Type BuildBot, its Uploader is the current user's name (and stays
  empty when \<open>user.Current()\<close> fails), and Branch, Cl, Tag and Description are the flag
  values.
\<close>

theorem prepare_without_git:
  "fst (prepare env b flags) = None
   \<and> (git_New env = Inl e \<and> branch flags = '''' \<and> uploader flags = '''' \<longrightarrow>
        Type (info (fst (snd (snd (prepare env b flags))))) = BuildBot
      \<and> Uploader (info (fst (snd (snd (prepare env b flags))))) =
          (case user_Current env of Inr username \<Rightarrow> username | Inl err \<Rightarrow> '''')
      \<and> Branch (info (fst (snd (snd (prepare env b flags))))) = ''''
      \<and> Cl (info (fst (snd (snd (prepare env b flags))))) = cl flags
      \<and> Tag (info (fst (snd (snd (prepare env b flags))))) = tag flags
      \<and> Info_Description (info (fst (snd (snd (prepare env b flags))))) = description flags
      \<and> Builder (info (fst (snd (snd (prepare env b flags))))) = device_Host env)"
  by (auto simp: prepare_def Let_def split: prod.splits sum.splits)

theorem prepare_without_git_witness:
  "fst (prepare env_bare (remote [] Inr add_new) flags_set) = None
   \<and> Type (info (fst (snd (snd (prepare env_bare (remote [] Inr add_new) flags_set))))) = BuildBot
   \<and> Uploader (info (fst (snd (snd (prepare env_bare (remote [] Inr add_new) flags_set))))) = ''robot''
   \<and> Branch (info (fst (snd (snd (prepare env_bare (remote [] Inr add_new) flags_set))))) = ''''
   \<and> Cl (info (fst (snd (snd (prepare env_bare (remote [] Inr add_new) flags_set))))) = ''''
   \<and> Tag (info (fst (snd (snd (prepare env_bare (remote [] Inr add_new) flags_set))))) = ''''
   \<and> Info_Description (info (fst (snd (snd (prepare env_bare (remote [] Inr add_new) flags_set))))) = ''d''
   \<and> Builder (info (fst (snd (snd (prepare env_bare (remote [] Inr add_new) flags_set))))) = ''host''"
proof -
  have bare: "git_New env_bare = Inl (Fault ''not a git repository'')
              \<and> branch flags_set = '''' \<and> uploader flags_set = ''''"
    by (simp add: env_bare_def flags_set_def)
  have given: "user_Current env_bare = Inr ''robot''" "device_Host env_bare = ''host''"
    "cl flags_set = ''''" "tag flags_set = ''''" "description flags_set = ''d''"
    by (simp_all add: env_bare_def flags_set_def)
  from prepare_without_git [of env_bare "remote [] Inr add_new" flags_set "Fault ''not a git repository''"] bare
  show ?thesis
    by (simp add: given)
qed

section \<open>Properties of guessSemantics\<close>












text \<open>Which patterns the names of the concrete runs contain.\<close>

lemma holds_Position0:
  "holds ToLower_ascii ''position'' ''Position0''"
  "\<not> holds ToLower_ascii ''normal'' ''Position0''"
  "\<not> holds ToLower_ascii ''tangent'' ''Position0''"
  "\<not> holds ToLower_ascii ''bitangent'' ''Position0''"
  "\<not> holds ToLower_ascii ''binormal'' ''Position0''"
  "\<not> holds ToLower_ascii ''texcoord'' ''Position0''"
  "holds ToLower_ascii ''pos'' ''Position0''"
  "\<not> holds ToLower_ascii ''uv'' ''Position0''"
  "\<not> holds ToLower_ascii ''vertex'' ''Position0''"
  by code_simp+

lemma holds_vertex_pos:
  "\<not> holds ToLower_ascii ''position'' ''vertex_pos''"
  "\<not> holds ToLower_ascii ''normal'' ''vertex_pos''"
  "\<not> holds ToLower_ascii ''tangent'' ''vertex_pos''"
  "\<not> holds ToLower_ascii ''bitangent'' ''vertex_pos''"
  "\<not> holds ToLower_ascii ''binormal'' ''vertex_pos''"
  "\<not> holds ToLower_ascii ''texcoord'' ''vertex_pos''"
  "holds ToLower_ascii ''pos'' ''vertex_pos''"
  "\<not> holds ToLower_ascii ''uv'' ''vertex_pos''"
  "holds ToLower_ascii ''vertex'' ''vertex_pos''"
  by code_simp+





text \<open>
  The example of the specification: Position0 gets Position through the pattern
  position, and vertex_pos stays unset, since the label of pos and of vertex is
  taken by then.
\<close>

lemma guessSemantics_spec_example:
  "guessSemantics ToLower_ascii
     [\<lparr>Stream_Name = ''Position0'', Semantic = None\<rparr>,
      \<lparr>Stream_Name = ''vertex_pos'', Semantic = None\<rparr>] =
     [\<lparr>Stream_Name = ''Position0'', Semantic = Some Semantic_Position\<rparr>,
      \<lparr>Stream_Name = ''vertex_pos'', Semantic = None\<rparr>]"
  by (simp add: guessSemantics_def semanticPatterns_def holds_Position0 holds_vertex_pos)





end
